theory Spec2Isabelle
  imports Main "HOL-Library.Product_Lexorder"
begin

section \<open>Data model\<close>

text \<open>
  The services of \<^verbatim>\<open>src/project\<close> are sequences of calls to a persistence gateway
  (the Prisma client) over the tables Availability, Appointment, Notification,
  ProfessionalProfile and UserProfile. The tables are lists of rows held in an explicit
  database state; every service takes the state and returns its outcome together with
  the state it leaves behind, also when it raises.

  Several classes of the source share field names (\<^verbatim>\<open>id\<close>, \<^verbatim>\<open>userId\<close>,
  \<^verbatim>\<open>success\<close>, \<^verbatim>\<open>message\<close>, ...); each record below prefixes the source's field
  name with a short tag of its class.
\<close>

subsection \<open>Dates and times\<close>

text \<open>
  Python's \<^verbatim>\<open>date\<close>, \<^verbatim>\<open>time\<close> and (naive) \<^verbatim>\<open>datetime\<close> values, field by field,
  with microsecond resolution. Naive datetimes compare lexicographically on
  (year, month, day, hour, minute, second, microsecond).
\<close>

record date =
  year :: nat
  month :: nat
  day :: nat

record time =
  hour :: nat
  minute :: nat
  second :: nat
  microsecond :: nat

record datetime =
  date_part :: date
  time_part :: time

text \<open>\<^verbatim>\<open>datetime.combine(date, time)\<close>\<close>

definition combine :: "date \<Rightarrow> time \<Rightarrow> datetime" where
  "combine d t = \<lparr>date_part = d, time_part = t\<rparr>"

text \<open>\<^verbatim>\<open>datetime.min.time()\<close> is 00:00:00 and \<^verbatim>\<open>datetime.max.time()\<close> is 23:59:59.999999.\<close>

definition time_min :: time where
  "time_min = \<lparr>hour = 0, minute = 0, second = 0, microsecond = 0\<rparr>"

definition time_max :: time where
  "time_max = \<lparr>hour = 23, minute = 59, second = 59, microsecond = 999999\<rparr>"

definition dt_key :: "datetime \<Rightarrow> nat \<times> nat \<times> nat \<times> nat \<times> nat \<times> nat \<times> nat" where
  "dt_key d =
     (year (date_part d), month (date_part d), day (date_part d),
      hour (time_part d), minute (time_part d), second (time_part d),
      microsecond (time_part d))"

text \<open>The comparisons \<^verbatim>\<open>gte\<close>, \<^verbatim>\<open>lte\<close> and \<^verbatim>\<open>lt\<close> of a where-clause on a datetime column.\<close>

definition dt_le :: "datetime \<Rightarrow> datetime \<Rightarrow> bool" where
  "dt_le a b \<longleftrightarrow> dt_key a \<le> dt_key b"

definition dt_lt :: "datetime \<Rightarrow> datetime \<Rightarrow> bool" where
  "dt_lt a b \<longleftrightarrow> dt_key a < dt_key b"

text \<open>Zero-padded decimal fields, as \<^verbatim>\<open>str(datetime)\<close> and \<^verbatim>\<open>strftime\<close> print them.\<close>

definition digit :: "nat \<Rightarrow> char" where
  "digit n = ''0123456789'' ! (n mod 10)"

definition pad2 :: "nat \<Rightarrow> string" where
  "pad2 n = [digit (n div 10), digit n]"

definition pad4 :: "nat \<Rightarrow> string" where
  "pad4 n = [digit (n div 1000), digit (n div 100), digit (n div 10), digit n]"

definition pad6 :: "nat \<Rightarrow> string" where
  "pad6 n = [digit (n div 100000), digit (n div 10000), digit (n div 1000),
             digit (n div 100), digit (n div 10), digit n]"

text \<open>
  \<^verbatim>\<open>%Y\<close> of \<^verbatim>\<open>strftime\<close>, as the C library of the platform prints it: the decimal
  year, with no padding below 1000.
\<close>

definition strftime_Y :: "nat \<Rightarrow> string" where
  "strftime_Y n =
     (if n < 10 then [digit n]
      else if n < 100 then [digit (n div 10), digit n]
      else if n < 1000 then [digit (n div 100), digit (n div 10), digit n]
      else pad4 n)"

text \<open>\<^verbatim>\<open>datetime.strftime('%Y-%m-%d %H:%M')\<close>\<close>

definition strftime_ymd_hm :: "datetime \<Rightarrow> string" where
  "strftime_ymd_hm d =
     strftime_Y (year (date_part d)) @ ''-'' @ pad2 (month (date_part d)) @ ''-'' @
     pad2 (day (date_part d)) @ '' '' @ pad2 (hour (time_part d)) @ '':'' @
     pad2 (minute (time_part d))"

text \<open>
  \<^verbatim>\<open>str(datetime)\<close>: ISO format with a space, the year on four digits, the fraction only
  when it is not zero.
\<close>

definition str_datetime :: "datetime \<Rightarrow> string" where
  "str_datetime d =
     pad4 (year (date_part d)) @ ''-'' @ pad2 (month (date_part d)) @ ''-'' @
     pad2 (day (date_part d)) @ '' '' @ pad2 (hour (time_part d)) @ '':'' @
     pad2 (minute (time_part d)) @ '':'' @ pad2 (second (time_part d)) @
     (if microsecond (time_part d) = 0 then [] else ''.'' @ pad6 (microsecond (time_part d)))"

subsection \<open>Rows\<close>

datatype AppointmentStatus = PENDING | CONFIRMED | CANCELLED | COMPLETED

text \<open>The value of the enum member, one way an f-string can print a status.\<close>

fun str_status :: "AppointmentStatus \<Rightarrow> string" where
  "str_status PENDING = ''PENDING''"
| "str_status CONFIRMED = ''CONFIRMED''"
| "str_status CANCELLED = ''CANCELLED''"
| "str_status COMPLETED = ''COMPLETED''"

record Availability =
  av_id :: int
  av_professionalId :: int
  av_datetime :: datetime
  av_isAvailable :: bool

record Appointment =
  ap_id :: int
  ap_userId :: int
  ap_professionalId :: int
  ap_scheduledTime :: datetime
  ap_status :: AppointmentStatus

record Notification =
  nt_id :: int
  nt_userId :: int
  nt_message :: string
  nt_isRead :: bool
  nt_createdAt :: datetime

record UserProfile =
  up_id :: int
  up_firstName :: string
  up_lastName :: string

record ProfessionalProfile =
  pp_id :: int
  pp_profileId :: int
  pp_qualifications :: string

subsection \<open>Database state\<close>

text \<open>
  The tables in insertion order, and the next value of each table's identifier
  sequence (the identifiers are assigned by the database on insertion).
\<close>

record db =
  availabilities :: "Availability list"
  appointments :: "Appointment list"
  notifications :: "Notification list"
  professional_profiles :: "ProfessionalProfile list"
  user_profiles :: "UserProfile list"
  next_availability_id :: int
  next_appointment_id :: int
  next_notification_id :: int

subsection \<open>Environment of a call\<close>

text \<open>
  Everything a service reads that is not in the source files is a parameter:
  \<^item> \<open>fault\<close>: whether a call of the persistence gateway raises in a given state, and with
    which error text (a constraint violation, a rejected query, a lost connection). A
    call that raises leaves the state as it was.
  \<^item> \<open>clock_now\<close>, \<open>clock_utcnow\<close>: the values of \<^verbatim>\<open>datetime.now()\<close> and
    \<^verbatim>\<open>datetime.utcnow()\<close>.
  \<^item> \<open>default_status\<close>, \<open>default_isRead\<close>, \<open>default_createdAt\<close>: the values the
    database schema gives to columns that a \<^verbatim>\<open>create\<close> call leaves out.
  \<^item> \<open>format_status\<close>: how an f-string prints a member of the generated enum class
    \<^verbatim>\<open>prisma.enums.AppointmentStatus\<close>.
  \<^item> \<open>validation_text\<close>: the text of the validation error that a response model of
    the given name raises.
  \<^item> \<open>rejected_query\<close>: the text of the error with which the query engine rejects a
    where-clause that names a filter the addressed relation does not have.
\<close>

datatype gateway_call =
    Availability_find_first
  | Availability_find_many
  | Availability_create
  | Availability_update
  | Availability_update_many
  | Appointment_find_unique
  | Appointment_create
  | Appointment_update
  | Notification_create
  | Notification_create_many
  | ProfessionalProfile_find_unique

record env =
  fault :: "gateway_call \<Rightarrow> db \<Rightarrow> string option"
  clock_now :: datetime
  clock_utcnow :: datetime
  default_status :: AppointmentStatus
  default_isRead :: bool
  default_createdAt :: datetime
  format_status :: "AppointmentStatus \<Rightarrow> string"
  validation_text :: "string \<Rightarrow> string"
  rejected_query :: string

text \<open>
  What a service call raises: an error of the persistence gateway with its text; the
  validation error of a response model, with the name of the model that rejected its
  arguments; the \<^verbatim>\<open>AttributeError\<close> of an attribute access on \<^verbatim>\<open>None\<close>, with the name
  of the attribute.
\<close>

datatype error = PrismaError string | ValidationError string | AttributeError string

text \<open>\<^verbatim>\<open>str(e)\<close> in an exception handler.\<close>

fun str_error :: "env \<Rightarrow> error \<Rightarrow> string" where
  "str_error E (PrismaError e) = e"
| "str_error E (ValidationError model) = validation_text E model"
| "str_error E (AttributeError attr) =
     [CHR 0x27] @ ''NoneType'' @ [CHR 0x27] @ '' object has no attribute '' @
     [CHR 0x27] @ attr @ [CHR 0x27]"

section \<open>Persistence gateway\<close>

text \<open>
  Each operation returns \<open>Inl\<close> the error text when the call raises, \<open>Inr\<close> its result
  otherwise, and the state after the call.
\<close>

text \<open>\<^verbatim>\<open>Availability.prisma().find_first(where=...)\<close>: the first row satisfying the filter.\<close>

definition availability_find_first ::
  "env \<Rightarrow> db \<Rightarrow> (Availability \<Rightarrow> bool) \<Rightarrow> (string + Availability option) \<times> db" where
  "availability_find_first E s wh =
     (case fault E Availability_find_first s of
        Some e \<Rightarrow> (Inl e, s)
      | None \<Rightarrow> (Inr (find wh (availabilities s)), s))"

text \<open>\<^verbatim>\<open>Availability.prisma().create(data=...)\<close>\<close>

definition availability_create ::
  "env \<Rightarrow> db \<Rightarrow> int \<Rightarrow> datetime \<Rightarrow> bool \<Rightarrow> (string + Availability) \<times> db" where
  "availability_create E s professionalId dt isAvailable =
     (case fault E Availability_create s of
        Some e \<Rightarrow> (Inl e, s)
      | None \<Rightarrow>
          (let row = \<lparr>av_id = next_availability_id s, av_professionalId = professionalId,
                      av_datetime = dt, av_isAvailable = isAvailable\<rparr>
           in (Inr row, s\<lparr>availabilities := availabilities s @ [row],
                          next_availability_id := next_availability_id s + 1\<rparr>)))"

text \<open>The rows after \<open>isAvailable\<close> is set on those satisfying the filter.\<close>

definition set_isAvailable ::
  "(Availability \<Rightarrow> bool) \<Rightarrow> bool \<Rightarrow> Availability list \<Rightarrow> Availability list" where
  "set_isAvailable wh b rows = map (\<lambda>a. if wh a then a\<lparr>av_isAvailable := b\<rparr> else a) rows"

text \<open>
  \<^verbatim>\<open>Availability.prisma().update(where={"id": ...}, data={"isAvailable": ...})\<close>: the
  updated row, or \<^verbatim>\<open>None\<close> when no row has the identifier.
\<close>

definition availability_update ::
  "env \<Rightarrow> db \<Rightarrow> int \<Rightarrow> bool \<Rightarrow> (string + Availability option) \<times> db" where
  "availability_update E s i b =
     (case fault E Availability_update s of
        Some e \<Rightarrow> (Inl e, s)
      | None \<Rightarrow>
          (let rows = set_isAvailable (\<lambda>a. av_id a = i) b (availabilities s)
           in (Inr (find (\<lambda>a. av_id a = i) rows), s\<lparr>availabilities := rows\<rparr>)))"

text \<open>\<^verbatim>\<open>Availability.prisma().update_many(where=..., data={"isAvailable": ...})\<close>: the number of rows updated.\<close>

definition availability_update_many ::
  "env \<Rightarrow> db \<Rightarrow> (Availability \<Rightarrow> bool) \<Rightarrow> bool \<Rightarrow> (string + nat) \<times> db" where
  "availability_update_many E s wh b =
     (case fault E Availability_update_many s of
        Some e \<Rightarrow> (Inl e, s)
      | None \<Rightarrow>
          (Inr (length (filter wh (availabilities s))),
           s\<lparr>availabilities := set_isAvailable wh b (availabilities s)\<rparr>))"

text \<open>\<^verbatim>\<open>Appointment.prisma().find_unique(where={"id": ...})\<close>\<close>

definition appointment_find_unique ::
  "env \<Rightarrow> db \<Rightarrow> int \<Rightarrow> (string + Appointment option) \<times> db" where
  "appointment_find_unique E s i =
     (case fault E Appointment_find_unique s of
        Some e \<Rightarrow> (Inl e, s)
      | None \<Rightarrow> (Inr (find (\<lambda>a. ap_id a = i) (appointments s)), s))"

text \<open>
  \<^verbatim>\<open>Appointment.prisma().create(data={"userId", "professionalId", "scheduledTime"})\<close>:
  the status is the schema's default.
\<close>

definition appointment_create ::
  "env \<Rightarrow> db \<Rightarrow> int \<Rightarrow> int \<Rightarrow> datetime \<Rightarrow> (string + Appointment) \<times> db" where
  "appointment_create E s userId professionalId scheduledTime =
     (case fault E Appointment_create s of
        Some e \<Rightarrow> (Inl e, s)
      | None \<Rightarrow>
          (let row = \<lparr>ap_id = next_appointment_id s, ap_userId = userId,
                      ap_professionalId = professionalId, ap_scheduledTime = scheduledTime,
                      ap_status = default_status E\<rparr>
           in (Inr row, s\<lparr>appointments := appointments s @ [row],
                          next_appointment_id := next_appointment_id s + 1\<rparr>)))"

text \<open>
  \<^verbatim>\<open>Appointment.prisma().update(where={"id": ...}, data=...)\<close>, the data being a status
  and optionally a scheduled time: the updated row, or \<^verbatim>\<open>None\<close> when no row has the
  identifier.
\<close>

definition update_data :: "AppointmentStatus \<Rightarrow> datetime option \<Rightarrow> Appointment \<Rightarrow> Appointment" where
  "update_data st t a =
     (case t of
        None \<Rightarrow> a\<lparr>ap_status := st\<rparr>
      | Some t' \<Rightarrow> a\<lparr>ap_status := st, ap_scheduledTime := t'\<rparr>)"

definition appointment_update ::
  "env \<Rightarrow> db \<Rightarrow> int \<Rightarrow> AppointmentStatus \<Rightarrow> datetime option \<Rightarrow> (string + Appointment option) \<times> db" where
  "appointment_update E s i st t =
     (case fault E Appointment_update s of
        Some e \<Rightarrow> (Inl e, s)
      | None \<Rightarrow>
          (let rows = map (\<lambda>a. if ap_id a = i then update_data st t a else a) (appointments s)
           in (Inr (find (\<lambda>a. ap_id a = i) rows), s\<lparr>appointments := rows\<rparr>)))"

text \<open>
  The row that \<^verbatim>\<open>Notification.prisma().create\<close> inserts for the data
  (userId, message, createdAt, isRead) at the sequence value \<open>i\<close>; a column left out
  of the data takes the schema's default.
\<close>

definition notification_row ::
  "env \<Rightarrow> int \<Rightarrow> int \<times> string \<times> datetime option \<times> bool option \<Rightarrow> Notification" where
  "notification_row E i d =
     (case d of (userId, message, createdAt, isRead) \<Rightarrow>
        \<lparr>nt_id = i, nt_userId = userId, nt_message = message,
         nt_isRead = (case isRead of None \<Rightarrow> default_isRead E | Some b \<Rightarrow> b),
         nt_createdAt = (case createdAt of None \<Rightarrow> default_createdAt E | Some t \<Rightarrow> t)\<rparr>)"

fun notification_rows ::
  "env \<Rightarrow> int \<Rightarrow> (int \<times> string \<times> datetime option \<times> bool option) list \<Rightarrow> Notification list" where
  "notification_rows E i [] = []"
| "notification_rows E i (d # ds) = notification_row E i d # notification_rows E (i + 1) ds"

definition notification_create ::
  "env \<Rightarrow> db \<Rightarrow> int \<times> string \<times> datetime option \<times> bool option \<Rightarrow> (string + Notification) \<times> db" where
  "notification_create E s d =
     (case fault E Notification_create s of
        Some e \<Rightarrow> (Inl e, s)
      | None \<Rightarrow>
          (let row = notification_row E (next_notification_id s) d
           in (Inr row, s\<lparr>notifications := notifications s @ [row],
                          next_notification_id := next_notification_id s + 1\<rparr>)))"

text \<open>\<^verbatim>\<open>Notification.prisma().create_many(data=[...])\<close>: the number of rows inserted.\<close>

definition notification_create_many ::
  "env \<Rightarrow> db \<Rightarrow> (int \<times> string \<times> datetime option \<times> bool option) list \<Rightarrow> (string + nat) \<times> db" where
  "notification_create_many E s ds =
     (case fault E Notification_create_many s of
        Some e \<Rightarrow> (Inl e, s)
      | None \<Rightarrow>
          (Inr (length ds),
           s\<lparr>notifications := notifications s @ notification_rows E (next_notification_id s) ds,
             next_notification_id := next_notification_id s + int (length ds)\<rparr>))"

section \<open>bookAppointment\<close>

record BookingResponse =
  bk_success :: bool
  bk_message :: string
  bk_appointmentId :: "int option"

text \<open>The where-clause of the reservation check: the exact pair, and \<open>isAvailable = True\<close>.\<close>

definition free_slot :: "int \<Rightarrow> datetime \<Rightarrow> Availability \<Rightarrow> bool" where
  "free_slot professionalId scheduledTime a \<longleftrightarrow>
     av_professionalId a = professionalId \<and> av_datetime a = scheduledTime \<and> av_isAvailable a = True"

definition bookAppointment ::
  "env \<Rightarrow> db \<Rightarrow> int \<Rightarrow> int \<Rightarrow> datetime \<Rightarrow> (error + BookingResponse) \<times> db" where
  "bookAppointment E s userId professionalId scheduledTime =
     (case availability_find_first E s (free_slot professionalId scheduledTime) of
        (Inl e, s0) \<Rightarrow> (Inl (PrismaError e), s0)
      | (Inr None, s0) \<Rightarrow>
          (Inr \<lparr>bk_success = False,
                bk_message = ''No available slots at the requested time.'',
                bk_appointmentId = None\<rparr>, s0)
      | (Inr (Some availability), s0) \<Rightarrow>
          (case appointment_create E s0 userId professionalId scheduledTime of
             (Inl e, s1) \<Rightarrow>
               (Inr \<lparr>bk_success = False, bk_message = e, bk_appointmentId = None\<rparr>, s1)
           | (Inr new_appointment, s1) \<Rightarrow>
               (case availability_update E s1 (av_id availability) False of
                  (Inl e, s2) \<Rightarrow> (Inl (PrismaError e), s2)
                | (Inr _, s2) \<Rightarrow>
                    (case notification_create E s2
                            (professionalId,
                             ''New appointment booked for '' @ str_datetime scheduledTime,
                             None, None) of
                       (Inl e, s3) \<Rightarrow> (Inl (PrismaError e), s3)
                     | (Inr _, s3) \<Rightarrow>
                         (Inr \<lparr>bk_success = True,
                               bk_message = ''Appointment booked successfully.'',
                               bk_appointmentId = Some (ap_id new_appointment)\<rparr>, s3)))))"

section \<open>cancelAppointment\<close>

record CancelBookingResponse =
  cn_success :: bool
  cn_message :: string

text \<open>The where-clause of the bulk release: equal datetime and equal professionalId.\<close>

definition slot_of :: "Appointment \<Rightarrow> Availability \<Rightarrow> bool" where
  "slot_of appointment a \<longleftrightarrow>
     av_datetime a = ap_scheduledTime appointment \<and>
     av_professionalId a = ap_professionalId appointment"

definition cancelAppointment ::
  "env \<Rightarrow> db \<Rightarrow> int \<Rightarrow> (error + CancelBookingResponse) \<times> db" where
  "cancelAppointment E s appointment_id =
     (case appointment_find_unique E s appointment_id of
        (Inl e, s0) \<Rightarrow> (Inl (PrismaError e), s0)
      | (Inr None, s0) \<Rightarrow>
          (Inr \<lparr>cn_success = False, cn_message = ''Appointment not found.''\<rparr>, s0)
      | (Inr (Some appointment), s0) \<Rightarrow>
          if ap_status appointment = CANCELLED then
            (Inr \<lparr>cn_success = False, cn_message = ''Appointment is already cancelled.''\<rparr>, s0)
          else
            (case appointment_update E s0 appointment_id CANCELLED None of
               (Inl e, s1) \<Rightarrow> (Inl (PrismaError e), s1)
             | (Inr None, s1) \<Rightarrow> (Inl (AttributeError ''scheduledTime''), s1)
             | (Inr (Some updated_appointment), s1) \<Rightarrow>
                 (case availability_update_many E s1 (slot_of updated_appointment) True of
                    (Inl e, s2) \<Rightarrow> (Inl (PrismaError e), s2)
                  | (Inr _, s2) \<Rightarrow>
                      (case notification_create_many E s2
                              [(ap_userId updated_appointment,
                                ''Your appointment has been cancelled.'', None, None),
                               (ap_professionalId updated_appointment,
                                ''An appointment has been cancelled.'', None, None)] of
                         (Inl e, s3) \<Rightarrow> (Inl (PrismaError e), s3)
                       | (Inr _, s3) \<Rightarrow>
                           (Inr \<lparr>cn_success = True,
                                 cn_message =
                                   ''The appointment has been successfully cancelled.''\<rparr>,
                            s3)))))"

section \<open>updateAppointment\<close>

text \<open>
  The response model declares \<^verbatim>\<open>updatedAppointment: Appointment\<close> (the local class with
  \<^verbatim>\<open>scheduledTime\<close> and \<^verbatim>\<open>status\<close>) and \<^verbatim>\<open>notification: prisma.models.Notification\<close>;
  neither field is \<^verbatim>\<open>Optional\<close> and neither has a default.
\<close>

record Appointment_details =
  ad_scheduledTime :: datetime
  ad_status :: AppointmentStatus

record UpdateAppointmentResponse =
  ua_success :: bool
  ua_message :: string
  ua_updatedAppointment :: Appointment_details
  ua_notification :: Notification

text \<open>
  The constructor call \<^verbatim>\<open>UpdateAppointmentResponse(success=..., message=...,
  updatedAppointment=..., notification=...)\<close>. The model validates its arguments: \<^verbatim>\<open>None\<close>
  for a required field that is not \<^verbatim>\<open>Optional\<close> raises the validation error; an
  appointment row is reduced to the two declared fields.
\<close>

definition new_UpdateAppointmentResponse ::
  "bool \<Rightarrow> string \<Rightarrow> Appointment option \<Rightarrow> Notification option
     \<Rightarrow> error + UpdateAppointmentResponse" where
  "new_UpdateAppointmentResponse success message updatedAppointment notification =
     (case updatedAppointment of
        None \<Rightarrow> Inl (ValidationError ''UpdateAppointmentResponse'')
      | Some a \<Rightarrow>
          (case notification of
             None \<Rightarrow> Inl (ValidationError ''UpdateAppointmentResponse'')
           | Some n \<Rightarrow>
               Inr \<lparr>ua_success = success, ua_message = message,
                    ua_updatedAppointment =
                      \<lparr>ad_scheduledTime = ap_scheduledTime a, ad_status = ap_status a\<rparr>,
                    ua_notification = n\<rparr>))"

text \<open>The body of the \<^verbatim>\<open>try\<close> block.\<close>

definition updateAppointment_try ::
  "env \<Rightarrow> db \<Rightarrow> int \<Rightarrow> datetime option \<Rightarrow> AppointmentStatus
     \<Rightarrow> (error + UpdateAppointmentResponse) \<times> db" where
  "updateAppointment_try E s appointmentId newScheduledTime status =
     (case appointment_find_unique E s appointmentId of
        (Inl e, s0) \<Rightarrow> (Inl (PrismaError e), s0)
      | (Inr None, s0) \<Rightarrow>
          (new_UpdateAppointmentResponse False ''Appointment not found.'' None None, s0)
      | (Inr (Some appointment), s0) \<Rightarrow>
          (case appointment_update E s0 appointmentId status newScheduledTime of
             (Inl e, s1) \<Rightarrow> (Inl (PrismaError e), s1)
           | (Inr None, s1) \<Rightarrow> (Inl (AttributeError ''userId''), s1)
           | (Inr (Some updated_appointment), s1) \<Rightarrow>
               (case notification_create E s1
                       (ap_userId updated_appointment,
                        ''Appointment status updated to '' @ format_status E status @ ''.'',
                        Some (clock_now E), Some False) of
                  (Inl e, s2) \<Rightarrow> (Inl (PrismaError e), s2)
                | (Inr notification, s2) \<Rightarrow>
                    (new_UpdateAppointmentResponse True ''Appointment updated successfully.''
                       (Some updated_appointment) (Some notification), s2))))"

text \<open>
  The whole function: the \<^verbatim>\<open>except Exception as e\<close> handler builds the failure response,
  again through the validating constructor.
\<close>

definition updateAppointment ::
  "env \<Rightarrow> db \<Rightarrow> int \<Rightarrow> datetime option \<Rightarrow> AppointmentStatus
     \<Rightarrow> (error + UpdateAppointmentResponse) \<times> db" where
  "updateAppointment E s appointmentId newScheduledTime status =
     (case updateAppointment_try E s appointmentId newScheduledTime status of
        (Inr r, s') \<Rightarrow> (Inr r, s')
      | (Inl e, s') \<Rightarrow>
          (new_UpdateAppointmentResponse False
             (''Error updating appointment: '' @ str_error E e) None None, s'))"

section \<open>updateAvailability\<close>

record AvailabilityUpdateResponse =
  au_professionalId :: int
  au_updatedStatus :: bool
  au_message :: string

text \<open>The where-clause of the lookup: the exact pair, whatever the flag.\<close>

definition slot_at :: "int \<Rightarrow> datetime \<Rightarrow> Availability \<Rightarrow> bool" where
  "slot_at professionalId dt a \<longleftrightarrow> av_professionalId a = professionalId \<and> av_datetime a = dt"

text \<open>The \<^verbatim>\<open>if availability: ... else: ...\<close> statement: update the row found, or insert one.\<close>

definition upsert_availability ::
  "env \<Rightarrow> db \<Rightarrow> Availability option \<Rightarrow> int \<Rightarrow> datetime \<Rightarrow> bool \<Rightarrow> (string + unit) \<times> db" where
  "upsert_availability E s found professionalId dt isAvailable =
     (case found of
        Some availability \<Rightarrow>
          (case availability_update_many E s (\<lambda>a. av_id a = av_id availability) isAvailable of
             (Inl e, s1) \<Rightarrow> (Inl e, s1)
           | (Inr _, s1) \<Rightarrow> (Inr (), s1))
      | None \<Rightarrow>
          (case availability_create E s professionalId dt isAvailable of
             (Inl e, s1) \<Rightarrow> (Inl e, s1)
           | (Inr _, s1) \<Rightarrow> (Inr (), s1)))"

definition availability_message :: "datetime \<Rightarrow> bool \<Rightarrow> string" where
  "availability_message dt isAvailable =
     ''Your availability for '' @ strftime_ymd_hm dt @ '' has been set to '' @
     (if isAvailable then ''available'' else ''not available'') @ ''.''"

definition updateAvailability ::
  "env \<Rightarrow> db \<Rightarrow> int \<Rightarrow> datetime \<Rightarrow> bool \<Rightarrow> (error + AvailabilityUpdateResponse) \<times> db" where
  "updateAvailability E s professionalId dt isAvailable =
     (case availability_find_first E s (slot_at professionalId dt) of
        (Inl e, s0) \<Rightarrow> (Inl (PrismaError e), s0)
      | (Inr found, s0) \<Rightarrow>
          (case upsert_availability E s0 found professionalId dt isAvailable of
             (Inl e, s1) \<Rightarrow> (Inl (PrismaError e), s1)
           | (Inr _, s1) \<Rightarrow>
               (case notification_create E s1
                       (professionalId, availability_message dt isAvailable,
                        Some (clock_utcnow E), Some False) of
                  (Inl e, s2) \<Rightarrow> (Inl (PrismaError e), s2)
                | (Inr _, s2) \<Rightarrow>
                    (Inr \<lparr>au_professionalId = professionalId,
                          au_updatedStatus = isAvailable,
                          au_message =
                            ''Availability successfully updated and notification sent.''\<rparr>,
                     s2))))"

section \<open>checkAvailability and getAvailableTimeSlots\<close>

record ProfessionalAvailability =
  pa_professionalId :: int
  pa_name :: string
  pa_availability :: bool
  pa_nextAvailableTime :: "datetime option"

record AvailabilityResponse =
  ar_availabilities :: "ProfessionalAvailability list"

text \<open>
  The relations that \<^verbatim>\<open>include\<close> loads: the professional profile an availability row
  refers to by \<^verbatim>\<open>professionalId\<close>, and the user profile a professional profile refers to
  by \<^verbatim>\<open>profileId\<close>; \<^verbatim>\<open>None\<close> when the row referred to is missing.
\<close>

definition professional_of :: "db \<Rightarrow> Availability \<Rightarrow> ProfessionalProfile option" where
  "professional_of s a = find (\<lambda>p. pp_id p = av_professionalId a) (professional_profiles s)"

definition profile_of :: "db \<Rightarrow> ProfessionalProfile \<Rightarrow> UserProfile option" where
  "profile_of s p = find (\<lambda>u. up_id u = pp_profileId p) (user_profiles s)"

text \<open>
  The where-clause that \<^verbatim>\<open>checkAvailability\<close> builds, a dictionary with up to two
  entries: \<^verbatim>\<open>"professional": {"some": {"id": professionalId}}\<close> when a professional is
  given, and \<^verbatim>\<open>"datetime": {"gte": day_start, "lt": day_end}\<close> when a date is given.
\<close>

record availability_where =
  wh_professional_some_id :: "int option"
  wh_datetime_gte_lt :: "(datetime \<times> datetime) option"

definition availability_query :: "int option \<Rightarrow> date option \<Rightarrow> availability_where" where
  "availability_query professionalId date =
     \<lparr>wh_professional_some_id = professionalId,
      wh_datetime_gte_lt =
        (case date of
           None \<Rightarrow> None
         | Some d \<Rightarrow>
             (let day_start = combine d time_min; day_end = combine d time_max
              in Some (day_start, day_end)))\<rparr>"

text \<open>The rows that pass the \<^verbatim>\<open>"datetime"\<close> entry of a where-clause.\<close>

definition datetime_matches :: "(datetime \<times> datetime) option \<Rightarrow> Availability \<Rightarrow> bool" where
  "datetime_matches bounds a \<longleftrightarrow>
     (case bounds of
        None \<Rightarrow> True
      | Some (gte, lt) \<Rightarrow> dt_le gte (av_datetime a) \<and> dt_lt (av_datetime a) lt)"

text \<open>
  \<^verbatim>\<open>Availability.prisma().find_many(where=..., include=...)\<close>: the rows satisfying the
  where-clause, in table order. The \<^verbatim>\<open>professional\<close> of an Availability row is one
  object (the loop of \<^verbatim>\<open>checkAvailability\<close> reads \<^verbatim>\<open>availability.professional.profile\<close>,
  and the other services address the row by the scalar \<^verbatim>\<open>professionalId\<close>), while
  \<^verbatim>\<open>some\<close> is a filter of list relations: a where-clause with that entry is rejected by
  the query engine, and the call raises.
\<close>

definition availability_find_many ::
  "env \<Rightarrow> db \<Rightarrow> availability_where \<Rightarrow> (string + Availability list) \<times> db" where
  "availability_find_many E s wh =
     (case fault E Availability_find_many s of
        Some e \<Rightarrow> (Inl e, s)
      | None \<Rightarrow>
          (case wh_professional_some_id wh of
             Some i \<Rightarrow> (Inl (rejected_query E), s)
           | None \<Rightarrow>
               (Inr (filter (datetime_matches (wh_datetime_gte_lt wh)) (availabilities s)), s)))"

text \<open>\<^verbatim>\<open>nextAvailableTime=availability.datetime if availability.isAvailable else None\<close>\<close>

definition nextAvailableTime :: "Availability \<Rightarrow> datetime option" where
  "nextAvailableTime a = (if av_isAvailable a then Some (av_datetime a) else None)"

text \<open>
  The loop of \<^verbatim>\<open>checkAvailability\<close> over the rows found. It reads
  \<^verbatim>\<open>availability.professional.profile\<close> and then the profile's \<^verbatim>\<open>id\<close>, \<^verbatim>\<open>firstName\<close> and
  \<^verbatim>\<open>lastName\<close>; an attribute read on \<^verbatim>\<open>None\<close> raises.
\<close>

fun availability_profiles :: "db \<Rightarrow> Availability list \<Rightarrow> error + ProfessionalAvailability list" where
  "availability_profiles s [] = Inr []"
| "availability_profiles s (availability # rest) =
     (case professional_of s availability of
        None \<Rightarrow> Inl (AttributeError ''profile'')
      | Some p \<Rightarrow>
          (case profile_of s p of
             None \<Rightarrow> Inl (AttributeError ''id'')
           | Some professional \<Rightarrow>
               (case availability_profiles s rest of
                  Inl e \<Rightarrow> Inl e
                | Inr entries \<Rightarrow>
                    Inr (\<lparr>pa_professionalId = up_id professional,
                          pa_name = up_firstName professional @ '' '' @ up_lastName professional,
                          pa_availability = av_isAvailable availability,
                          pa_nextAvailableTime = nextAvailableTime availability\<rparr> # entries))))"

definition checkAvailability ::
  "env \<Rightarrow> db \<Rightarrow> int option \<Rightarrow> date option \<Rightarrow> (error + AvailabilityResponse) \<times> db" where
  "checkAvailability E s professionalId date =
     (case availability_find_many E s (availability_query professionalId date) of
        (Inl e, s0) \<Rightarrow> (Inl (PrismaError e), s0)
      | (Inr found, s0) \<Rightarrow>
          (case availability_profiles s0 found of
             Inl e \<Rightarrow> (Inl e, s0)
           | Inr profiles \<Rightarrow> (Inr \<lparr>ar_availabilities = profiles\<rparr>, s0)))"

text \<open>
  \<^verbatim>\<open>ProfessionalProfile.prisma().find_unique(where={"id": ...}, include=...)\<close>: the
  professional, or \<^verbatim>\<open>None\<close>.
\<close>

definition professionalprofile_find_unique ::
  "env \<Rightarrow> db \<Rightarrow> int \<Rightarrow> (string + ProfessionalProfile option) \<times> db" where
  "professionalprofile_find_unique E s i =
     (case fault E ProfessionalProfile_find_unique s of
        Some e \<Rightarrow> (Inl e, s)
      | None \<Rightarrow> (Inr (find (\<lambda>p. pp_id p = i) (professional_profiles s)), s))"

text \<open>
  The included \<^verbatim>\<open>availabilities\<close> of a professional: the rows that refer to it, filtered by
  \<^verbatim>\<open>{"datetime": {"gte": start_date, "lte": end_date}, "professionalId": professionalId}\<close>.
\<close>

definition included_availabilities ::
  "db \<Rightarrow> ProfessionalProfile \<Rightarrow> int \<Rightarrow> datetime \<Rightarrow> datetime \<Rightarrow> Availability list" where
  "included_availabilities s p professionalId start_date end_date =
     filter (\<lambda>a. av_professionalId a = pp_id p \<and>
                 dt_le start_date (av_datetime a) \<and> dt_le (av_datetime a) end_date \<and>
                 av_professionalId a = professionalId)
       (availabilities s)"

text \<open>The loop of \<^verbatim>\<open>getAvailableTimeSlots\<close>; it reads \<^verbatim>\<open>professional.profile.firstName\<close>.\<close>

fun time_slots ::
  "UserProfile option \<Rightarrow> int \<Rightarrow> Availability list \<Rightarrow> error + ProfessionalAvailability list" where
  "time_slots profile professionalId [] = Inr []"
| "time_slots profile professionalId (availability # rest) =
     (case profile of
        None \<Rightarrow> Inl (AttributeError ''firstName'')
      | Some u \<Rightarrow>
          (case time_slots profile professionalId rest of
             Inl e \<Rightarrow> Inl e
           | Inr entries \<Rightarrow>
               Inr (\<lparr>pa_professionalId = professionalId,
                     pa_name = up_firstName u @ '' '' @ up_lastName u,
                     pa_availability = av_isAvailable availability,
                     pa_nextAvailableTime = nextAvailableTime availability\<rparr> # entries)))"

definition getAvailableTimeSlots ::
  "env \<Rightarrow> db \<Rightarrow> int \<Rightarrow> datetime \<Rightarrow> datetime \<Rightarrow> (error + AvailabilityResponse) \<times> db" where
  "getAvailableTimeSlots E s professionalId start_date end_date =
     (case professionalprofile_find_unique E s professionalId of
        (Inl e, s0) \<Rightarrow> (Inl (PrismaError e), s0)
      | (Inr None, s0) \<Rightarrow> (Inr \<lparr>ar_availabilities = []\<rparr>, s0)
      | (Inr (Some professional), s0) \<Rightarrow>
          (case time_slots (profile_of s0 professional) professionalId
                  (included_availabilities s0 professional professionalId start_date end_date) of
             Inl e \<Rightarrow> (Inl e, s0)
           | Inr availability_list \<Rightarrow>
               (Inr \<lparr>ar_availabilities = availability_list\<rparr>, s0)))"

section \<open>Auxiliary notions for the specification\<close>

text \<open>A gateway none of whose calls raises, in any state.\<close>

definition faultless :: "env \<Rightarrow> bool" where
  "faultless E \<longleftrightarrow> (\<forall>c s. fault E c s = None)"

text \<open>
  The day boundary in the words of the specification: the inclusive range
  [00:00:00, 23:59:59.999] of a calendar date.
\<close>

definition spec_day_boundary :: "date \<Rightarrow> datetime \<Rightarrow> bool" where
  "spec_day_boundary d t \<longleftrightarrow>
     dt_le (combine d \<lparr>hour = 0, minute = 0, second = 0, microsecond = 0\<rparr>) t \<and>
     dt_le t (combine d \<lparr>hour = 23, minute = 59, second = 59, microsecond = 999000\<rparr>)"

text \<open>
  The day range that the source's where-clause selects: from 00:00:00 inclusive to
  23:59:59.999999 exclusive.
\<close>

definition code_day_range :: "date \<Rightarrow> datetime \<Rightarrow> bool" where
  "code_day_range d t \<longleftrightarrow>
     date_part t = d \<and>
     (hour (time_part t), minute (time_part t), second (time_part t), microsecond (time_part t))
       < (23, 59, 59, 999999)"

text \<open>The entry that \<^verbatim>\<open>checkAvailability\<close> builds for a row whose profile is \<open>u\<close>.\<close>

definition profile_entry :: "UserProfile \<Rightarrow> Availability \<Rightarrow> ProfessionalAvailability" where
  "profile_entry u a =
     \<lparr>pa_professionalId = up_id u,
      pa_name = up_firstName u @ '' '' @ up_lastName u,
      pa_availability = av_isAvailable a,
      pa_nextAvailableTime = nextAvailableTime a\<rparr>"

text \<open>
  Referential integrity of an Availability row: the professional profile it refers to
  exists, and so does that profile's user profile.
\<close>

definition intact :: "db \<Rightarrow> Availability \<Rightarrow> bool" where
  "intact s a \<longleftrightarrow>
     (case professional_of s a of None \<Rightarrow> False | Some p \<Rightarrow> profile_of s p \<noteq> None)"

text \<open>The entry for a row, when its relations can be loaded.\<close>

definition entry_of :: "db \<Rightarrow> Availability \<Rightarrow> ProfessionalAvailability option" where
  "entry_of s a =
     (case professional_of s a of
        None \<Rightarrow> None
      | Some p \<Rightarrow> map_option (\<lambda>u. profile_entry u a) (profile_of s p))"

text \<open>The optional date filter of \<^verbatim>\<open>checkAvailability\<close>, by the day range of the source.\<close>

definition on_day :: "date option \<Rightarrow> Availability \<Rightarrow> bool" where
  "on_day date a \<longleftrightarrow>
     (case date of None \<Rightarrow> True | Some d \<Rightarrow> code_day_range d (av_datetime a))"

text \<open>A time of day within its ranges and on a whole millisecond.\<close>

definition millisecond_time :: "time \<Rightarrow> bool" where
  "millisecond_time t \<longleftrightarrow>
     hour t < 24 \<and> minute t < 60 \<and> second t < 60 \<and>
     microsecond t < 1000000 \<and> microsecond t mod 1000 = 0"

text \<open>
  The state after a cancellation of the appointment \<open>a\<close> with identifier \<open>i\<close> in which
  no gateway call raises.
\<close>

definition cancelled_db :: "env \<Rightarrow> db \<Rightarrow> int \<Rightarrow> Appointment \<Rightarrow> db" where
  "cancelled_db E s i a =
     s\<lparr>appointments :=
         map (\<lambda>x. if ap_id x = i then x\<lparr>ap_status := CANCELLED\<rparr> else x) (appointments s),
       availabilities :=
         map (\<lambda>v. if av_datetime v = ap_scheduledTime a \<and>
                      av_professionalId v = ap_professionalId a
                   then v\<lparr>av_isAvailable := True\<rparr> else v) (availabilities s),
       notifications := notifications s @
         [\<lparr>nt_id = next_notification_id s, nt_userId = ap_userId a,
           nt_message = ''Your appointment has been cancelled.'',
           nt_isRead = default_isRead E, nt_createdAt = default_createdAt E\<rparr>,
          \<lparr>nt_id = next_notification_id s + 1, nt_userId = ap_professionalId a,
           nt_message = ''An appointment has been cancelled.'',
           nt_isRead = default_isRead E, nt_createdAt = default_createdAt E\<rparr>],
       next_notification_id := next_notification_id s + 2\<rparr>"

section \<open>Example states\<close>

definition example_day :: date where
  "example_day = \<lparr>year = 2023, month = 9, day = 10\<rparr>"

definition example_time :: datetime where
  "example_time = combine example_day \<lparr>hour = 9, minute = 30, second = 0, microsecond = 0\<rparr>"

definition late_time :: datetime where
  "late_time = combine example_day \<lparr>hour = 23, minute = 59, second = 59, microsecond = 999500\<rparr>"

definition last_time :: datetime where
  "last_time = combine example_day time_max"

definition example_env :: env where
  "example_env =
     \<lparr>fault = (\<lambda>c s. None), clock_now = example_time, clock_utcnow = example_time,
      default_status = PENDING, default_isRead = False, default_createdAt = example_time,
      format_status = str_status,
      validation_text = (\<lambda>model. ''validation error for '' @ model),
      rejected_query = ''Field does not exist on enclosing type.''\<rparr>"

text \<open>The same environment, except that inserting an appointment fails.\<close>

definition failing_env :: env where
  "failing_env =
     example_env\<lparr>fault :=
       (\<lambda>c s. if c = Appointment_create then Some ''Foreign key constraint failed'' else None)\<rparr>"

text \<open>Professional 2 (user profile 7) has published one free slot at \<open>example_time\<close>.\<close>

definition example_db :: db where
  "example_db =
     \<lparr>availabilities =
        [\<lparr>av_id = 1, av_professionalId = 2, av_datetime = example_time, av_isAvailable = True\<rparr>],
      appointments = [],
      notifications = [],
      professional_profiles = [\<lparr>pp_id = 2, pp_profileId = 7, pp_qualifications = ''MD''\<rparr>],
      user_profiles = [\<lparr>up_id = 7, up_firstName = ''Ada'', up_lastName = ''Byron''\<rparr>],
      next_availability_id = 2, next_appointment_id = 101, next_notification_id = 1\<rparr>"

text \<open>The slot is taken: appointment 101 of user 1 with professional 2 is confirmed.\<close>

definition booked_db :: db where
  "booked_db =
     example_db
       \<lparr>availabilities :=
          [\<lparr>av_id = 1, av_professionalId = 2, av_datetime = example_time, av_isAvailable = False\<rparr>],
        appointments :=
          [\<lparr>ap_id = 101, ap_userId = 1, ap_professionalId = 2,
            ap_scheduledTime = example_time, ap_status = CONFIRMED\<rparr>],
        next_appointment_id := 102\<rparr>"

text \<open>A state whose only slot is at the last microsecond of \<open>example_day\<close>.\<close>

definition last_db :: db where
  "last_db =
     example_db
       \<lparr>availabilities :=
          [\<lparr>av_id = 1, av_professionalId = 2, av_datetime = last_time, av_isAvailable = True\<rparr>]\<rparr>"

section \<open>Properties of the gateway\<close>

lemmas gateway_defs =
  availability_find_first_def availability_create_def availability_update_def
  availability_update_many_def appointment_find_unique_def appointment_create_def
  appointment_update_def notification_create_def notification_create_many_def
  availability_find_many_def professionalprofile_find_unique_def

lemmas example_defs =
  example_day_def example_time_def late_time_def last_time_def example_env_def
  failing_env_def example_db_def booked_db_def last_db_def combine_def

lemma find_updated_appointment:
  assumes "\<And>a. ap_id (f a) = ap_id a"
  shows "find (\<lambda>a. ap_id a = i) (map (\<lambda>a. if ap_id a = i then f a else a) rows) =
           map_option f (find (\<lambda>a. ap_id a = i) rows)"
  using assms by (induction rows) auto

lemma ap_id_update_data: "ap_id (update_data st t a) = ap_id a"
  by (simp add: update_data_def split: option.splits)

lemma appointment_update_result:
  assumes "fault E Appointment_update s = None"
  shows "appointment_update E s i st t =
           (Inr (map_option (update_data st t) (find (\<lambda>a. ap_id a = i) (appointments s))),
            s\<lparr>appointments :=
                 map (\<lambda>a. if ap_id a = i then update_data st t a else a) (appointments s)\<rparr>)"
  using assms
  by (simp add: appointment_update_def Let_def find_updated_appointment ap_id_update_data)

lemma appointment_update_fault:
  assumes "fault E Appointment_update s = Some e"
  shows "appointment_update E s i st t = (Inl e, s)"
  using assms by (simp add: appointment_update_def)

section \<open>bookAppointment: the reservation check\<close>

lemma book_reserved:
  assumes "faultless E"
    and "find (free_slot p t) (availabilities s) = Some slot"
  shows "\<exists>s'. bookAppointment E s u p t =
           (Inr \<lparr>bk_success = True, bk_message = ''Appointment booked successfully.'',
                 bk_appointmentId = Some (next_appointment_id s)\<rparr>, s')"
proof -
  have nf: "\<And>c s. fault E c s = None" using assms(1) by (simp add: faultless_def)
  show ?thesis
    using assms(2) by (simp add: bookAppointment_def gateway_defs nf Let_def)
qed

lemma book_inserts:
  assumes "fault E Availability_find_first s = None"
    and "find (free_slot p t) (availabilities s) = Some slot"
    and "fault E Appointment_create s = None"
  shows "appointments (snd (bookAppointment E s u p t)) =
           appointments s @
             [\<lparr>ap_id = next_appointment_id s, ap_userId = u, ap_professionalId = p,
               ap_scheduledTime = t, ap_status = default_status E\<rparr>]"
  using assms
  by (simp add: bookAppointment_def gateway_defs Let_def split: option.splits)

text \<open>
  Claim C1. Provided the lookup itself completes, the reservation check of
  \<open>bookAppointment\<close> finds a slot if and only if the Availability table holds a row with
  exactly the requested professionalId and datetime and with \<open>isAvailable = True\<close>.
  When there is no such row (none for the pair, or only rows with \<open>isAvailable = False\<close>),
  the call does not raise: it returns the response with \<open>success = False\<close> and the
  message "No available slots at the requested time.", and the state is the one it
  started from. When there is such a row, the call goes past the check: if the insertion
  does not fail, the appointment is inserted, and with a gateway none of whose calls
  raises the call returns the response with \<open>success = True\<close>.
\<close>

theorem book_reservation_check:
  assumes "fault E Availability_find_first s = None"
  shows "((\<exists>slot. availability_find_first E s (free_slot p t) = (Inr (Some slot), s)) \<longleftrightarrow>
          (\<exists>a \<in> set (availabilities s).
              av_professionalId a = p \<and> av_datetime a = t \<and> av_isAvailable a = True)) \<and>
         ((\<not> (\<exists>a \<in> set (availabilities s).
              av_professionalId a = p \<and> av_datetime a = t \<and> av_isAvailable a = True)) \<longrightarrow>
          bookAppointment E s u p t =
            (Inr \<lparr>bk_success = False,
                  bk_message = ''No available slots at the requested time.'',
                  bk_appointmentId = None\<rparr>, s)) \<and>
         ((\<exists>a \<in> set (availabilities s).
              av_professionalId a = p \<and> av_datetime a = t \<and> av_isAvailable a = True) \<and>
          fault E Appointment_create s = None \<longrightarrow>
          appointments (snd (bookAppointment E s u p t)) =
            appointments s @
              [\<lparr>ap_id = next_appointment_id s, ap_userId = u, ap_professionalId = p,
                ap_scheduledTime = t, ap_status = default_status E\<rparr>]) \<and>
         ((\<exists>a \<in> set (availabilities s).
              av_professionalId a = p \<and> av_datetime a = t \<and> av_isAvailable a = True) \<and>
          faultless E \<longrightarrow>
          (\<exists>s'. bookAppointment E s u p t =
             (Inr \<lparr>bk_success = True, bk_message = ''Appointment booked successfully.'',
                   bk_appointmentId = Some (next_appointment_id s)\<rparr>, s')))"
proof -
  let ?P = "\<exists>a \<in> set (availabilities s).
              av_professionalId a = p \<and> av_datetime a = t \<and> av_isAvailable a = True"
  let ?found = "\<exists>slot. availability_find_first E s (free_slot p t) = (Inr (Some slot), s)"
  have lookup: "availability_find_first E s (free_slot p t) =
                  (Inr (find (free_slot p t) (availabilities s)), s)"
    using assms by (simp add: availability_find_first_def)
  have none: "find (free_slot p t) (availabilities s) = None \<longleftrightarrow> \<not> ?P"
    by (auto simp: find_None_iff free_slot_def)
  show ?thesis
  proof (cases "find (free_slot p t) (availabilities s)")
    case None
    have "\<not> ?P" using none None by blast
    moreover have "\<not> ?found" using None lookup by simp
    moreover have "bookAppointment E s u p t =
            (Inr \<lparr>bk_success = False,
                  bk_message = ''No available slots at the requested time.'',
                  bk_appointmentId = None\<rparr>, s)"
      using None lookup by (simp add: bookAppointment_def)
    ultimately show ?thesis by blast
  next
    case (Some slot)
    have "?P" using none Some by (metis option.distinct(1))
    moreover have "?found" using Some lookup by simp
    moreover note book_inserts [OF assms Some, of u] book_reserved [OF _ Some, of E u]
    ultimately show ?thesis by blast
  qed
qed

text \<open>
  In the example state professional 2 has a free slot at \<open>example_time\<close> and professional 3
  has none: the check finds the former and the booking succeeds, and a booking with the
  latter is refused.
\<close>

theorem book_reservation_check_witness:
  "fault example_env Availability_find_first example_db = None \<and>
   faultless example_env \<and>
   (\<exists>slot. availability_find_first example_env example_db (free_slot 2 example_time) =
      (Inr (Some slot), example_db)) \<and>
   fst (bookAppointment example_env example_db 1 2 example_time) =
     Inr \<lparr>bk_success = True, bk_message = ''Appointment booked successfully.'',
          bk_appointmentId = Some 101\<rparr> \<and>
   appointments (snd (bookAppointment example_env example_db 1 2 example_time)) =
     [\<lparr>ap_id = 101, ap_userId = 1, ap_professionalId = 2,
       ap_scheduledTime = example_time, ap_status = PENDING\<rparr>] \<and>
   bookAppointment example_env example_db 1 3 example_time =
     (Inr \<lparr>bk_success = False,
           bk_message = ''No available slots at the requested time.'',
           bk_appointmentId = None\<rparr>, example_db)"
proof -
  have ok: "fault example_env Availability_find_first example_db = None"
    by (simp add: example_env_def)
  have create: "fault example_env Appointment_create example_db = None"
    by (simp add: example_env_def)
  have all: "faultless example_env"
    by (simp add: faultless_def example_env_def)
  have free: "\<exists>a \<in> set (availabilities example_db).
                av_professionalId a = 2 \<and> av_datetime a = example_time \<and> av_isAvailable a = True"
    by (simp add: example_db_def)
  have none: "\<not> (\<exists>a \<in> set (availabilities example_db).
                av_professionalId a = 3 \<and> av_datetime a = example_time \<and> av_isAvailable a = True)"
    by (simp add: example_db_def)
  have start: "appointments example_db = []" "next_appointment_id example_db = 101"
    "default_status example_env = PENDING"
    by (simp_all add: example_db_def example_env_def)
  note yes = book_reservation_check [OF ok, of 2 example_time 1]
  note no = book_reservation_check [OF ok, of 3 example_time 1]
  have found: "\<exists>slot. availability_find_first example_env example_db (free_slot 2 example_time) =
      (Inr (Some slot), example_db)"
    using yes free by blast
  have inserted: "appointments (snd (bookAppointment example_env example_db 1 2 example_time)) =
     [\<lparr>ap_id = 101, ap_userId = 1, ap_professionalId = 2,
       ap_scheduledTime = example_time, ap_status = PENDING\<rparr>]"
    using yes [THEN conjunct2, THEN conjunct2, THEN conjunct1] free create
    by (simp add: start)
  have booked: "fst (bookAppointment example_env example_db 1 2 example_time) =
     Inr \<lparr>bk_success = True, bk_message = ''Appointment booked successfully.'',
          bk_appointmentId = Some 101\<rparr>"
    using yes [THEN conjunct2, THEN conjunct2, THEN conjunct2] free all
    by (auto simp: start)
  have refused: "bookAppointment example_env example_db 1 3 example_time =
     (Inr \<lparr>bk_success = False,
           bk_message = ''No available slots at the requested time.'',
           bk_appointmentId = None\<rparr>, example_db)"
    using no none by blast
  show ?thesis using ok all found inserted booked refused by blast
qed

section \<open>bookAppointment: a successful booking\<close>

text \<open>
  Claim C2. Whenever \<open>bookAppointment\<close> returns a response with \<open>success = True\<close>, the
  reservation check had found a free slot for the pair, and the state it leaves differs
  from the one it started from as follows: the Appointment table has exactly one new row,
  for (userId, professionalId, scheduledTime); the slot that was reserved has
  \<open>isAvailable = False\<close> (the rows with other identifiers are as they were); the
  Notification table has exactly one new row, addressed to the professional. The response
  carries the identifier of the new appointment.
\<close>

theorem book_success_effect:
  assumes "bookAppointment E s u p t = (Inr r, s')" and "bk_success r = True"
  shows "\<exists>slot. find (free_slot p t) (availabilities s) = Some slot \<and>
           appointments s' = appointments s @
             [\<lparr>ap_id = next_appointment_id s, ap_userId = u, ap_professionalId = p,
               ap_scheduledTime = t, ap_status = default_status E\<rparr>] \<and>
           availabilities s' =
             map (\<lambda>a. if av_id a = av_id slot then a\<lparr>av_isAvailable := False\<rparr> else a)
               (availabilities s) \<and>
           notifications s' = notifications s @
             [\<lparr>nt_id = next_notification_id s, nt_userId = p,
               nt_message = ''New appointment booked for '' @ str_datetime t,
               nt_isRead = default_isRead E, nt_createdAt = default_createdAt E\<rparr>] \<and>
           r = \<lparr>bk_success = True, bk_message = ''Appointment booked successfully.'',
                bk_appointmentId = Some (next_appointment_id s)\<rparr>"
  using assms
  unfolding bookAppointment_def gateway_defs set_isAvailable_def notification_row_def
  by (auto simp: Let_def split: option.splits)

text \<open>User 1 books the free slot of professional 2 in the example state.\<close>

theorem book_success_effect_witness:
  "bookAppointment example_env example_db 1 2 example_time =
     (Inr \<lparr>bk_success = True, bk_message = ''Appointment booked successfully.'',
           bk_appointmentId = Some 101\<rparr>,
      snd (bookAppointment example_env example_db 1 2 example_time)) \<and>
   appointments (snd (bookAppointment example_env example_db 1 2 example_time)) =
     [\<lparr>ap_id = 101, ap_userId = 1, ap_professionalId = 2,
       ap_scheduledTime = example_time, ap_status = PENDING\<rparr>] \<and>
   map av_isAvailable
     (availabilities (snd (bookAppointment example_env example_db 1 2 example_time))) = [False] \<and>
   map nt_userId
     (notifications (snd (bookAppointment example_env example_db 1 2 example_time))) = [2]"
proof -
  have run: "bookAppointment example_env example_db 1 2 example_time =
     (Inr \<lparr>bk_success = True, bk_message = ''Appointment booked successfully.'',
           bk_appointmentId = Some 101\<rparr>,
      snd (bookAppointment example_env example_db 1 2 example_time))"
    by (simp add: bookAppointment_def gateway_defs example_defs free_slot_def
          set_isAvailable_def notification_row_def Let_def)
  from book_success_effect [OF run]
  show ?thesis using run
    by (auto simp: example_defs free_slot_def)
qed

section \<open>bookAppointment: failure of the appointment insertion\<close>

text \<open>
  Claim C7. If the reservation check has found a slot and the insertion of the
  Appointment row fails with a persistence error, \<open>bookAppointment\<close> returns the response
  with \<open>success = False\<close> whose message is the text of that error, and the state is the one
  it started from: the reserved slot still has \<open>isAvailable = True\<close>, and no Appointment
  and no Notification has been created.
\<close>

theorem book_create_failure_atomic:
  assumes "fault E Availability_find_first s = None"
    and "find (free_slot p t) (availabilities s) = Some slot"
    and "fault E Appointment_create s = Some msg"
  shows "bookAppointment E s u p t =
           (Inr \<lparr>bk_success = False, bk_message = msg, bk_appointmentId = None\<rparr>, s) \<and>
         slot \<in> set (availabilities s) \<and> av_isAvailable slot = True"
proof -
  have "free_slot p t slot" and "slot \<in> set (availabilities s)"
    using assms(2) by (auto simp: find_Some_iff in_set_conv_nth)
  then show ?thesis
    using assms
    by (simp add: bookAppointment_def availability_find_first_def appointment_create_def
          free_slot_def)
qed

text \<open>In \<open>failing_env\<close> the insertion is rejected; the free slot of the example state stays free.\<close>

theorem book_create_failure_atomic_witness:
  "fault failing_env Availability_find_first example_db = None \<and>
   fault failing_env Appointment_create example_db = Some ''Foreign key constraint failed'' \<and>
   bookAppointment failing_env example_db 1 2 example_time =
     (Inr \<lparr>bk_success = False, bk_message = ''Foreign key constraint failed'',
           bk_appointmentId = None\<rparr>, example_db) \<and>
   map av_isAvailable (availabilities example_db) = [True]"
proof -
  have ok: "fault failing_env Availability_find_first example_db = None"
    by (simp add: failing_env_def example_env_def)
  have found: "find (free_slot 2 example_time) (availabilities example_db) =
                 Some \<lparr>av_id = 1, av_professionalId = 2, av_datetime = example_time,
                       av_isAvailable = True\<rparr>"
    by (simp add: example_db_def free_slot_def)
  have fails: "fault failing_env Appointment_create example_db =
                 Some ''Foreign key constraint failed''"
    by (simp add: failing_env_def example_env_def)
  show ?thesis
    using ok fails book_create_failure_atomic [OF ok found fails, of 1]
    by (simp add: example_db_def)
qed

section \<open>cancelAppointment: a successful cancellation\<close>

text \<open>
  Claim C3. Whenever \<open>cancelAppointment\<close> returns a response with \<open>success = True\<close>, the
  appointment with the given identifier existed with a status other than CANCELLED, and
  the state it leaves differs from the one it started from as follows: that appointment's
  status is CANCELLED; every Availability row whose datetime and professionalId equal the
  appointment's scheduledTime and professionalId has \<open>isAvailable = True\<close> (the other rows
  are as they were); the Notification table has exactly two new rows, the first addressed
  to the appointment's userId and the second to its professionalId. The response carries
  the message "The appointment has been successfully cancelled.".
\<close>

theorem cancel_success_effect:
  assumes "cancelAppointment E s i = (Inr r, s')" and "cn_success r = True"
  shows "\<exists>a. find (\<lambda>x. ap_id x = i) (appointments s) = Some a \<and> ap_status a \<noteq> CANCELLED \<and>
           appointments s' =
             map (\<lambda>x. if ap_id x = i then x\<lparr>ap_status := CANCELLED\<rparr> else x) (appointments s) \<and>
           availabilities s' =
             map (\<lambda>v. if av_datetime v = ap_scheduledTime a \<and>
                          av_professionalId v = ap_professionalId a
                       then v\<lparr>av_isAvailable := True\<rparr> else v) (availabilities s) \<and>
           notifications s' = notifications s @
             [\<lparr>nt_id = next_notification_id s, nt_userId = ap_userId a,
               nt_message = ''Your appointment has been cancelled.'',
               nt_isRead = default_isRead E, nt_createdAt = default_createdAt E\<rparr>,
              \<lparr>nt_id = next_notification_id s + 1, nt_userId = ap_professionalId a,
               nt_message = ''An appointment has been cancelled.'',
               nt_isRead = default_isRead E, nt_createdAt = default_createdAt E\<rparr>] \<and>
           r = \<lparr>cn_success = True,
                cn_message = ''The appointment has been successfully cancelled.''\<rparr>"
proof (cases "fault E Appointment_update s")
  case None
  with assms show ?thesis
    by (auto simp: cancelAppointment_def appointment_find_unique_def appointment_update_result
          availability_update_many_def notification_create_many_def
          set_isAvailable_def notification_row_def slot_of_def update_data_def
          split: option.splits if_splits)
next
  case (Some e)
  with assms show ?thesis
    by (auto simp: cancelAppointment_def appointment_find_unique_def appointment_update_fault
          split: option.splits if_splits)
qed

text \<open>Appointment 101 of the booked example state is cancelled; its slot is free again.\<close>

theorem cancel_success_effect_witness:
  "cancelAppointment example_env booked_db 101 =
     (Inr \<lparr>cn_success = True,
           cn_message = ''The appointment has been successfully cancelled.''\<rparr>,
      snd (cancelAppointment example_env booked_db 101)) \<and>
   map ap_status (appointments (snd (cancelAppointment example_env booked_db 101))) = [CANCELLED] \<and>
   map av_isAvailable (availabilities (snd (cancelAppointment example_env booked_db 101))) = [True] \<and>
   map nt_userId (notifications (snd (cancelAppointment example_env booked_db 101))) = [1, 2]"
proof -
  have run: "cancelAppointment example_env booked_db 101 =
     (Inr \<lparr>cn_success = True,
           cn_message = ''The appointment has been successfully cancelled.''\<rparr>,
      snd (cancelAppointment example_env booked_db 101))"
    by (simp add: cancelAppointment_def gateway_defs example_defs slot_of_def
          set_isAvailable_def notification_row_def update_data_def Let_def)
  from cancel_success_effect [OF run]
  show ?thesis using run
    by (auto simp: example_defs)
qed

section \<open>cancelAppointment: repeated and unknown cancellations\<close>

lemma find_cancelled:
  "find (\<lambda>x. ap_id x = i) (map (\<lambda>x. if ap_id x = i then x\<lparr>ap_status := CANCELLED\<rparr> else x) rows) =
     map_option (\<lambda>x. x\<lparr>ap_status := CANCELLED\<rparr>) (find (\<lambda>x. ap_id x = i) rows)"
  by (induction rows) auto

lemma cancel_live:
  assumes "faultless E"
    and "find (\<lambda>x. ap_id x = i) (appointments s) = Some a"
    and "ap_status a \<noteq> CANCELLED"
  shows "cancelAppointment E s i =
           (Inr \<lparr>cn_success = True,
                 cn_message = ''The appointment has been successfully cancelled.''\<rparr>,
            cancelled_db E s i a)"
proof -
  have nf: "\<And>c s. fault E c s = None" using assms(1) by (simp add: faultless_def)
  show ?thesis
    using assms(2,3)
    by (simp add: cancelAppointment_def appointment_find_unique_def nf appointment_update_result
          availability_update_many_def notification_create_many_def update_data_def
          cancelled_db_def set_isAvailable_def slot_of_def notification_row_def)
qed

lemma cancel_cancelled:
  assumes "fault E Appointment_find_unique s = None"
    and "find (\<lambda>x. ap_id x = i) (appointments s) = Some a"
    and "ap_status a = CANCELLED"
  shows "cancelAppointment E s i =
           (Inr \<lparr>cn_success = False, cn_message = ''Appointment is already cancelled.''\<rparr>, s)"
  using assms by (simp add: cancelAppointment_def appointment_find_unique_def)

lemma cancel_missing:
  assumes "fault E Appointment_find_unique s = None"
    and "\<forall>a \<in> set (appointments s). ap_id a \<noteq> i"
  shows "cancelAppointment E s i =
           (Inr \<lparr>cn_success = False, cn_message = ''Appointment not found.''\<rparr>, s)"
proof -
  have "find (\<lambda>x. ap_id x = i) (appointments s) = None"
    using assms(2) by (simp add: find_None_iff)
  then show ?thesis
    using assms(1) by (simp add: cancelAppointment_def appointment_find_unique_def)
qed

text \<open>
  Claim C4. With a gateway none of whose calls raises: when the appointment with the
  given identifier exists and its status is not CANCELLED, a first cancellation returns
  \<open>success = True\<close>, and a second cancellation of the same identifier, in the state the
  first one left, returns \<open>success = False\<close> with the message "Appointment is already
  cancelled." and changes nothing; when no appointment has the identifier, the
  cancellation returns \<open>success = False\<close> with the message "Appointment not found." and
  changes nothing.
\<close>

theorem cancel_not_idempotent:
  assumes "faultless E"
  shows "(\<forall>a. find (\<lambda>x. ap_id x = i) (appointments s) = Some a \<and> ap_status a \<noteq> CANCELLED \<longrightarrow>
            (\<exists>s'. cancelAppointment E s i =
                    (Inr \<lparr>cn_success = True,
                          cn_message = ''The appointment has been successfully cancelled.''\<rparr>,
                     s') \<and>
                  cancelAppointment E s' i =
                    (Inr \<lparr>cn_success = False,
                          cn_message = ''Appointment is already cancelled.''\<rparr>, s'))) \<and>
         ((\<forall>a \<in> set (appointments s). ap_id a \<noteq> i) \<longrightarrow>
            cancelAppointment E s i =
              (Inr \<lparr>cn_success = False, cn_message = ''Appointment not found.''\<rparr>, s))"
proof -
  have nf: "\<And>c s. fault E c s = None" using assms by (simp add: faultless_def)
  have twice: "\<exists>s'. cancelAppointment E s i =
                    (Inr \<lparr>cn_success = True,
                          cn_message = ''The appointment has been successfully cancelled.''\<rparr>,
                     s') \<and>
                  cancelAppointment E s' i =
                    (Inr \<lparr>cn_success = False,
                          cn_message = ''Appointment is already cancelled.''\<rparr>, s')"
    if found: "find (\<lambda>x. ap_id x = i) (appointments s) = Some a"
      and live: "ap_status a \<noteq> CANCELLED" for a
  proof -
    let ?s' = "cancelled_db E s i a"
    have "find (\<lambda>x. ap_id x = i) (appointments ?s') = Some (a\<lparr>ap_status := CANCELLED\<rparr>)"
      using found by (simp add: cancelled_db_def find_cancelled)
    then have "cancelAppointment E ?s' i =
              (Inr \<lparr>cn_success = False, cn_message = ''Appointment is already cancelled.''\<rparr>, ?s')"
      using cancel_cancelled [OF nf] by simp
    with cancel_live [OF assms found live] show ?thesis by blast
  qed
  show ?thesis using cancel_missing [OF nf] twice by blast
qed

text \<open>Appointment 101 of the booked example state is cancelled twice; appointment 999 does not exist.\<close>

theorem cancel_not_idempotent_witness:
  "faultless example_env \<and>
   (\<exists>s'. cancelAppointment example_env booked_db 101 =
           (Inr \<lparr>cn_success = True,
                 cn_message = ''The appointment has been successfully cancelled.''\<rparr>, s') \<and>
         cancelAppointment example_env s' 101 =
           (Inr \<lparr>cn_success = False, cn_message = ''Appointment is already cancelled.''\<rparr>, s')) \<and>
   cancelAppointment example_env booked_db 999 =
     (Inr \<lparr>cn_success = False, cn_message = ''Appointment not found.''\<rparr>, booked_db)"
proof -
  have ok: "faultless example_env"
    by (simp add: faultless_def example_env_def)
  have found: "find (\<lambda>x. ap_id x = 101) (appointments booked_db) =
                 Some \<lparr>ap_id = 101, ap_userId = 1, ap_professionalId = 2,
                       ap_scheduledTime = example_time, ap_status = CONFIRMED\<rparr>"
    by (simp add: booked_db_def example_db_def)
  have missing: "\<forall>a \<in> set (appointments booked_db). ap_id a \<noteq> 999"
    by (simp add: booked_db_def example_db_def)
  show ?thesis
    using ok found missing
      cancel_not_idempotent [OF ok, of 101 booked_db]
      cancel_not_idempotent [OF ok, of 999 booked_db]
    by simp
qed

section \<open>updateAvailability\<close>

text \<open>
  Claim C6. With a gateway none of whose calls raises, \<open>updateAvailability\<close> returns its
  response. Whenever it returns: if no Availability row exists for the exact
  (professionalId, datetime), the Availability table has exactly one new row, with the
  given flag; if such a row exists, the table has the same rows, the flag of the row
  found being the given one (the rows with other identifiers are as they were). In both
  cases the Notification table has exactly one new row, addressed to the professional.
\<close>

theorem updateAvailability_effect:
  "(faultless E \<longrightarrow> (\<exists>s'. updateAvailability E s p t b =
       (Inr \<lparr>au_professionalId = p, au_updatedStatus = b,
             au_message = ''Availability successfully updated and notification sent.''\<rparr>, s'))) \<and>
   (\<forall>r s'. updateAvailability E s p t b = (Inr r, s') \<longrightarrow>
      ((\<forall>a \<in> set (availabilities s). \<not> (av_professionalId a = p \<and> av_datetime a = t)) \<longrightarrow>
         availabilities s' = availabilities s @
           [\<lparr>av_id = next_availability_id s, av_professionalId = p, av_datetime = t,
             av_isAvailable = b\<rparr>]) \<and>
      (\<forall>a. find (slot_at p t) (availabilities s) = Some a \<longrightarrow>
         availabilities s' =
           map (\<lambda>v. if av_id v = av_id a then v\<lparr>av_isAvailable := b\<rparr> else v) (availabilities s)) \<and>
      notifications s' = notifications s @
        [\<lparr>nt_id = next_notification_id s, nt_userId = p,
          nt_message = availability_message t b,
          nt_isRead = False, nt_createdAt = clock_utcnow E\<rparr>])"
proof -
  have total: "\<exists>s'. updateAvailability E s p t b =
       (Inr \<lparr>au_professionalId = p, au_updatedStatus = b,
             au_message = ''Availability successfully updated and notification sent.''\<rparr>, s')"
    if "faultless E"
  proof -
    have nf: "\<And>c s. fault E c s = None" using that by (simp add: faultless_def)
    show ?thesis
      by (simp add: updateAvailability_def upsert_availability_def availability_find_first_def
            availability_update_many_def availability_create_def notification_create_def
            nf Let_def split: option.splits)
  qed
  have none: "find (slot_at p t) (availabilities s) = None"
    if "\<forall>a \<in> set (availabilities s). \<not> (av_professionalId a = p \<and> av_datetime a = t)"
    using that by (simp add: find_None_iff slot_at_def)
  have effect: "((\<forall>a \<in> set (availabilities s). \<not> (av_professionalId a = p \<and> av_datetime a = t)) \<longrightarrow>
         availabilities s' = availabilities s @
           [\<lparr>av_id = next_availability_id s, av_professionalId = p, av_datetime = t,
             av_isAvailable = b\<rparr>]) \<and>
      (\<forall>a. find (slot_at p t) (availabilities s) = Some a \<longrightarrow>
         availabilities s' =
           map (\<lambda>v. if av_id v = av_id a then v\<lparr>av_isAvailable := b\<rparr> else v) (availabilities s)) \<and>
      notifications s' = notifications s @
        [\<lparr>nt_id = next_notification_id s, nt_userId = p,
          nt_message = availability_message t b,
          nt_isRead = False, nt_createdAt = clock_utcnow E\<rparr>]"
    if run: "updateAvailability E s p t b = (Inr r, s')" for r s'
  proof (cases "find (slot_at p t) (availabilities s)")
    case None
    with run show ?thesis
      by (auto simp: updateAvailability_def upsert_availability_def availability_find_first_def
            availability_create_def notification_create_def notification_row_def Let_def
            split: option.splits)
  next
    case (Some a)
    then have "\<not> (\<forall>a \<in> set (availabilities s). \<not> (av_professionalId a = p \<and> av_datetime a = t))"
      using none by fastforce
    with run Some show ?thesis
      by (auto simp: updateAvailability_def upsert_availability_def availability_find_first_def
            availability_update_many_def notification_create_def notification_row_def
            set_isAvailable_def Let_def
            split: option.splits)
  qed
  show ?thesis using total effect by blast
qed

text \<open>
  In the example state professional 2 has no slot at \<open>late_time\<close>, so one is created; the
  slot at \<open>example_time\<close> exists, so its flag is changed in place.
\<close>

theorem updateAvailability_effect_witness:
  "faultless example_env \<and>
   availabilities (snd (updateAvailability example_env example_db 2 late_time False)) =
     availabilities example_db @
       [\<lparr>av_id = 2, av_professionalId = 2, av_datetime = late_time, av_isAvailable = False\<rparr>] \<and>
   map nt_userId (notifications (snd (updateAvailability example_env example_db 2 late_time False))) = [2] \<and>
   availabilities (snd (updateAvailability example_env example_db 2 example_time False)) =
     [\<lparr>av_id = 1, av_professionalId = 2, av_datetime = example_time, av_isAvailable = False\<rparr>] \<and>
   map nt_userId (notifications (snd (updateAvailability example_env example_db 2 example_time False))) = [2]"
proof -
  have ok: "faultless example_env"
    by (simp add: faultless_def example_env_def)
  have unseen: "\<forall>a \<in> set (availabilities example_db).
                  \<not> (av_professionalId a = 2 \<and> av_datetime a = late_time)"
    by (simp add: example_db_def example_time_def late_time_def combine_def)
  have seen: "find (slot_at 2 example_time) (availabilities example_db) =
                Some \<lparr>av_id = 1, av_professionalId = 2, av_datetime = example_time,
                      av_isAvailable = True\<rparr>"
    by (simp add: example_db_def slot_at_def)
  note new = updateAvailability_effect [of example_env example_db 2 late_time False]
  note old = updateAvailability_effect [of example_env example_db 2 example_time False]
  from new [THEN conjunct1, THEN mp, OF ok] obtain s1 where
    run1: "updateAvailability example_env example_db 2 late_time False =
             (Inr \<lparr>au_professionalId = 2, au_updatedStatus = False,
                   au_message = ''Availability successfully updated and notification sent.''\<rparr>, s1)"
    by (rule exE)
  from old [THEN conjunct1, THEN mp, OF ok] obtain s2 where
    run2: "updateAvailability example_env example_db 2 example_time False =
             (Inr \<lparr>au_professionalId = 2, au_updatedStatus = False,
                   au_message = ''Availability successfully updated and notification sent.''\<rparr>, s2)"
    by (rule exE)
  note eff1 = new [THEN conjunct2, THEN spec, THEN spec, THEN mp, OF run1]
  note eff2 = old [THEN conjunct2, THEN spec, THEN spec, THEN mp, OF run2]
  have a1: "availabilities s1 = availabilities example_db @
       [\<lparr>av_id = next_availability_id example_db, av_professionalId = 2,
         av_datetime = late_time, av_isAvailable = False\<rparr>]"
    by (rule eff1 [THEN conjunct1, THEN mp, OF unseen])
  have n1: "notifications s1 = notifications example_db @
        [\<lparr>nt_id = next_notification_id example_db, nt_userId = 2,
          nt_message = availability_message late_time False,
          nt_isRead = False, nt_createdAt = clock_utcnow example_env\<rparr>]"
    by (rule eff1 [THEN conjunct2, THEN conjunct2])
  have a2: "availabilities s2 =
       map (\<lambda>v. if av_id v = av_id \<lparr>av_id = 1, av_professionalId = 2, av_datetime = example_time,
                      av_isAvailable = True\<rparr> then v\<lparr>av_isAvailable := False\<rparr> else v) (availabilities example_db)"
    by (rule eff2 [THEN conjunct2, THEN conjunct1, THEN spec, THEN mp, OF seen])
  have n2: "notifications s2 = notifications example_db @
        [\<lparr>nt_id = next_notification_id example_db, nt_userId = 2,
          nt_message = availability_message example_time False,
          nt_isRead = False, nt_createdAt = clock_utcnow example_env\<rparr>]"
    by (rule eff2 [THEN conjunct2, THEN conjunct2])
  have s1: "snd (updateAvailability example_env example_db 2 late_time False) = s1"
    by (simp add: run1)
  have s2: "snd (updateAvailability example_env example_db 2 example_time False) = s2"
    by (simp add: run2)
  show ?thesis
    unfolding s1 s2 a1 n1 a2 n2 using ok by (simp add: example_db_def)
qed

section \<open>updateAppointment\<close>

text \<open>
  Claim C8. \<open>updateAppointment\<close> never writes an Availability row: for every input and
  every outcome, also when the status becomes CANCELLED or a new time is given, the
  Availability table after the call is the one before it. It never reads one either:
  with a gateway none of whose calls raises, the outcome is the same whatever the
  Availability table holds.
\<close>

theorem updateAppointment_frame:
  "availabilities (snd (updateAppointment E s i t st)) = availabilities s \<and>
   (faultless E \<longrightarrow>
      fst (updateAppointment E (s\<lparr>availabilities := rows\<rparr>) i t st) =
      fst (updateAppointment E s i t st))"
proof -
  have writes: "availabilities (snd (updateAppointment E s i t st)) = availabilities s"
    by (cases "fault E Appointment_update s")
       (auto simp: updateAppointment_def updateAppointment_try_def appointment_find_unique_def
          appointment_update_result appointment_update_fault notification_create_def Let_def
          split: option.splits sum.splits prod.splits)
  have reads: "fst (updateAppointment E (s\<lparr>availabilities := rows\<rparr>) i t st) =
               fst (updateAppointment E s i t st)" if "faultless E"
  proof -
    have nf: "\<And>c s. fault E c s = None" using that by (simp add: faultless_def)
    show ?thesis
      by (simp add: updateAppointment_def updateAppointment_try_def appointment_find_unique_def
            appointment_update_result notification_create_def Let_def nf
            split: option.splits sum.splits prod.splits)
  qed
  show ?thesis using writes reads by blast
qed

text \<open>
  Appointment 101 of the booked example state is moved and cancelled through
  \<open>updateAppointment\<close>: its slot stays unavailable.
\<close>

theorem updateAppointment_frame_witness:
  "faultless example_env \<and>
   map av_isAvailable (availabilities booked_db) = [False] \<and>
   availabilities (snd (updateAppointment example_env booked_db 101 (Some late_time) CANCELLED)) =
     availabilities booked_db \<and>
   fst (updateAppointment example_env (booked_db\<lparr>availabilities := []\<rparr>) 101 (Some late_time) CANCELLED) =
     fst (updateAppointment example_env booked_db 101 (Some late_time) CANCELLED)"
proof -
  have ok: "faultless example_env"
    by (simp add: faultless_def example_env_def)
  show ?thesis
    using ok updateAppointment_frame [of example_env booked_db 101 "Some late_time" CANCELLED "[]"]
    by (simp add: booked_db_def example_db_def)
qed

text \<open>
  The validating constructor rejects every failure response the function builds, so a
  call either raises the validation error or returns a response with \<open>success = True\<close>.
\<close>

lemma updateAppointment_never_returns_failure:
  "fst (updateAppointment E s i t st) = Inl (ValidationError ''UpdateAppointmentResponse'') \<or>
   (\<exists>r. fst (updateAppointment E s i t st) = Inr r \<and> ua_success r = True)"
  by (cases "fault E Appointment_update s")
     (auto simp: updateAppointment_def updateAppointment_try_def appointment_find_unique_def
        appointment_update_result appointment_update_fault notification_create_def Let_def
        new_UpdateAppointmentResponse_def
        split: option.splits sum.splits prod.splits)

text \<open>
  Claim C5. The claim is that \<open>updateAppointment\<close> never raises and that a call with an
  identifier no appointment has returns a response with \<open>success = False\<close> and no
  updated appointment. In the example state no appointment has the identifier 999: the
  response for "Appointment not found." is rejected by the response model, whose
  \<open>updatedAppointment\<close> and \<open>notification\<close> fields do not admit \<^verbatim>\<open>None\<close>; the handler
  then builds its failure response with the same two \<^verbatim>\<open>None\<close> arguments, and the
  validation error leaves the function.
\<close>

theorem updateAppointment_missing_raises:
  "updateAppointment example_env example_db 999 None CANCELLED =
     (Inl (ValidationError ''UpdateAppointmentResponse''), example_db)"
  by (simp add: updateAppointment_def updateAppointment_try_def appointment_find_unique_def
        new_UpdateAppointmentResponse_def example_env_def example_db_def)

section \<open>getAvailableTimeSlots\<close>

text \<open>
  Claim C10. Provided the lookup itself completes, for a professionalId that no
  ProfessionalProfile row has, \<open>getAvailableTimeSlots\<close> returns a response with an empty
  list of availabilities, not an error, and the state is the one it started from.
\<close>

theorem getAvailableTimeSlots_unknown_professional:
  assumes "fault E ProfessionalProfile_find_unique s = None"
    and "\<forall>p \<in> set (professional_profiles s). pp_id p \<noteq> i"
  shows "getAvailableTimeSlots E s i start_date end_date = (Inr \<lparr>ar_availabilities = []\<rparr>, s)"
proof -
  have "find (\<lambda>p. pp_id p = i) (professional_profiles s) = None"
    using assms(2) by (simp add: find_None_iff)
  then show ?thesis
    using assms(1) by (simp add: getAvailableTimeSlots_def professionalprofile_find_unique_def)
qed

text \<open>The example state has no professional 3.\<close>

theorem getAvailableTimeSlots_unknown_professional_witness:
  "fault example_env ProfessionalProfile_find_unique example_db = None \<and>
   getAvailableTimeSlots example_env example_db 3 example_time late_time =
     (Inr \<lparr>ar_availabilities = []\<rparr>, example_db)"
proof -
  have ok: "fault example_env ProfessionalProfile_find_unique example_db = None"
    by (simp add: example_env_def)
  have missing: "\<forall>p \<in> set (professional_profiles example_db). pp_id p \<noteq> 3"
    by (simp add: example_db_def)
  show ?thesis
    using ok getAvailableTimeSlots_unknown_professional [OF ok missing, of example_time late_time]
    by simp
qed

section \<open>checkAvailability\<close>

text \<open>
  The date filter. The two comparisons of the where-clause select the datetimes of the
  date that lie before 23:59:59.999999; on times kept to the millisecond this is the
  inclusive range [00:00:00, 23:59:59.999] of the specification, and it is every time of
  the date.
\<close>

lemma day_range:
  "dt_le (combine d time_min) t \<and> dt_lt t (combine d time_max) \<longleftrightarrow> code_day_range d t"
  by (cases d; cases t; cases "date_part t"; cases "time_part t")
     (auto simp: dt_le_def dt_lt_def dt_key_def combine_def time_min_def time_max_def
        code_day_range_def)

lemma millisecond_bound:
  assumes "(n::nat) < 1000000" and "n mod 1000 = 0"
  shows "n \<le> 999000"
proof -
  from assms(2) have "1000 dvd n" by (simp add: dvd_eq_mod_eq_0)
  then obtain k where k: "n = 1000 * k" by (rule dvdE)
  with assms(1) have "k \<le> 999" by simp
  with k show ?thesis by simp
qed

lemma between_same_day:
  fixes a b c :: nat and x lo hi :: "nat \<times> nat \<times> nat \<times> nat"
  shows "(A, B, C, lo) \<le> (a, b, c, x) \<and> (a, b, c, x) \<le> (A, B, C, hi) \<longleftrightarrow>
         a = A \<and> b = B \<and> c = C \<and> lo \<le> x \<and> x \<le> hi"
  by auto

lemma millisecond_time_of_day:
  assumes "millisecond_time t"
  shows "(0, 0, 0, 0) \<le> (hour t, minute t, second t, microsecond t)"
    and "(hour t, minute t, second t, microsecond t) \<le> (23, 59, 59, 999000)"
    and "(hour t, minute t, second t, microsecond t) < (23, 59, 59, 999999)"
proof -
  from assms have b: "hour t \<le> 23" "minute t \<le> 59" "second t \<le> 59" "microsecond t \<le> 999000"
    by (simp_all add: millisecond_time_def millisecond_bound)
  show "(0, 0, 0, 0) \<le> (hour t, minute t, second t, microsecond t)" by simp
  from b show "(hour t, minute t, second t, microsecond t) \<le> (23, 59, 59, 999000)"
    by auto
  from b show "(hour t, minute t, second t, microsecond t) < (23, 59, 59, 999999)"
    by auto
qed

lemma day_range_milliseconds:
  assumes "millisecond_time (time_part t)"
  shows "(code_day_range d t \<longleftrightarrow> spec_day_boundary d t) \<and>
         (code_day_range d t \<longleftrightarrow> date_part t = d)"
proof -
  note tod = millisecond_time_of_day [OF assms]
  have day: "code_day_range d t \<longleftrightarrow> date_part t = d"
    using tod(3) by (simp add: code_day_range_def)
  have "spec_day_boundary d t \<longleftrightarrow>
          year (date_part t) = year d \<and> month (date_part t) = month d \<and>
          day (date_part t) = day d"
    unfolding spec_day_boundary_def dt_le_def dt_key_def combine_def
    using tod(1,2) by (simp only: datetime.simps date.simps time.simps between_same_day) simp
  also have "\<dots> \<longleftrightarrow> date_part t = d"
    by (cases d; cases "date_part t") auto
  finally show ?thesis using day by simp
qed

text \<open>At the resolution of \<^verbatim>\<open>datetime\<close> the last microsecond of the date is left out.\<close>

lemma checkAvailability_last_microsecond:
  "map av_datetime (availabilities last_db) = [last_time] \<and>
   date_part last_time = example_day \<and>
   checkAvailability example_env last_db None (Some example_day) =
     (Inr \<lparr>ar_availabilities = []\<rparr>, last_db)"
  by (simp add: checkAvailability_def availability_find_many_def availability_query_def
        datetime_matches_def dt_le_def dt_lt_def dt_key_def time_min_def time_max_def
        example_defs Let_def)

text \<open>
  Without a professionalId, and when every row of the day has its professional profile
  and user profile, the function returns one entry for each row of the day, in table
  order.
\<close>

lemma availability_profiles_intact:
  assumes "\<forall>a \<in> set rows. intact s a"
  shows "\<exists>entries. availability_profiles s rows = Inr entries \<and>
                   map (entry_of s) rows = map Some entries"
  using assms
proof (induction rows)
  case Nil
  then show ?case by simp
next
  case (Cons a rows)
  then obtain entries where
    rest: "availability_profiles s rows = Inr entries" "map (entry_of s) rows = map Some entries"
    by auto
  from Cons.prems obtain p u where
    rel: "professional_of s a = Some p" "profile_of s p = Some u"
    by (auto simp: intact_def split: option.splits)
  then have "entry_of s a = Some (profile_entry u a)"
    by (simp add: entry_of_def)
  with rest rel show ?case
    by (simp add: profile_entry_def)
qed

lemma query_on_day:
  "datetime_matches (wh_datetime_gte_lt (availability_query None date)) = on_day date"
  by (rule ext)
     (simp add: datetime_matches_def availability_query_def on_day_def Let_def day_range
        split: option.splits)

lemma checkAvailability_without_professional:
  assumes "fault E Availability_find_many s = None"
  shows "checkAvailability E s None date =
           (case availability_profiles s (filter (on_day date) (availabilities s)) of
              Inl e \<Rightarrow> (Inl e, s)
            | Inr profiles \<Rightarrow> (Inr \<lparr>ar_availabilities = profiles\<rparr>, s))"
proof -
  have "wh_professional_some_id (availability_query None date) = None"
    by (simp add: availability_query_def)
  then show ?thesis
    using assms
    by (simp add: checkAvailability_def availability_find_many_def query_on_day)
qed

lemma checkAvailability_by_date:
  assumes "fault E Availability_find_many s = None"
    and "\<forall>a \<in> set (availabilities s). on_day date a \<longrightarrow> intact s a"
  shows "\<exists>entries.
           checkAvailability E s None date = (Inr \<lparr>ar_availabilities = entries\<rparr>, s) \<and>
           map (entry_of s) (filter (on_day date) (availabilities s)) = map Some entries"
proof -
  let ?rows = "filter (on_day date) (availabilities s)"
  have "\<forall>a \<in> set ?rows. intact s a"
    using assms(2) by simp
  from availability_profiles_intact [OF this] obtain entries where
    "availability_profiles s ?rows = Inr entries" "map (entry_of s) ?rows = map Some entries"
    by blast
  then show ?thesis
    by (simp add: checkAvailability_without_professional [OF assms(1)])
qed

text \<open>
  With a professionalId the where-clause carries the \<^verbatim>\<open>some\<close> filter, and the call
  raises whatever the tables hold.
\<close>

lemma checkAvailability_some_rejected:
  assumes "fault E Availability_find_many s = None"
  shows "checkAvailability E s (Some i) date = (Inl (PrismaError (rejected_query E)), s)"
  using assms
  by (simp add: checkAvailability_def availability_find_many_def availability_query_def)

text \<open>
  Claim C9. The claim is that \<open>checkAvailability\<close> returns the Availability rows that
  satisfy both filters supplied and never an error. In the example state the only slot
  belongs to professional 2; asked for the slots of professional 2, the function builds
  the where-clause \<^verbatim>\<open>{"professional": {"some": {"id": 2}}}\<close>, the query is rejected, and the
  error leaves the function.
\<close>

theorem checkAvailability_professional_filter_raises:
  "map av_professionalId (availabilities example_db) = [2] \<and>
   checkAvailability example_env example_db (Some 2) None =
     (Inl (PrismaError (rejected_query example_env)), example_db)"
  by (simp add: checkAvailability_def availability_find_many_def availability_query_def
        example_env_def example_db_def)

end
